theory Spec2Isabelle
  imports Complex_Main
begin

section \<open>Python exceptions\<close>

text \<open>
  Every exception the two modules can raise is a value of \<open>error\<close>; a computation that
  may raise returns \<open>error + 'a\<close> with \<open>Inl\<close> for the exception.  Python floats and
  numpy's float64 entries are idealised as \<open>real\<close> (exact arithmetic, no rounding and no
  overflow).
\<close>

datatype error =
    KeyError string
  | NameError string
  | ImportError string
  | AttributeError string
  | TypeError
  | ValueError

definition bind_err :: "error + 'a \<Rightarrow> ('a \<Rightarrow> error + 'b) \<Rightarrow> error + 'b" where
  "bind_err r f = (case r of Inl e \<Rightarrow> Inl e | Inr x \<Rightarrow> f x)"

text \<open>\<open>d[k]\<close> on a dict written as a literal: the items in source order.\<close>

definition getitem :: "(string \<times> 'v) list \<Rightarrow> string \<Rightarrow> error + 'v" where
  "getitem d k = (case map_of d k of None \<Rightarrow> Inl (KeyError k) | Some v \<Rightarrow> Inr v)"

section \<open>numpy arrays\<close>

text \<open>
  A numpy array is its shape and its buffer in row-major (C) order.  numpy only builds
  arrays whose buffer has as many entries as the shape says (\<open>well_shaped\<close>).
\<close>

record 'a ndarray =
  shape :: "nat list"
  data :: "'a list"

definition well_shaped :: "'a ndarray \<Rightarrow> bool" where
  "well_shaped a \<longleftrightarrow> length (data a) = prod_list (shape a)"

text \<open>All multi-indices of a shape, in buffer order, and the buffer position of one.\<close>

fun indices :: "nat list \<Rightarrow> nat list list" where
  "indices [] = [[]]"
| "indices (n # ns) = concat (map (\<lambda>i. map ((#) i) (indices ns)) [0..<n])"

fun offset :: "nat list \<Rightarrow> nat list \<Rightarrow> nat" where
  "offset (n # ns) (i # js) = i * prod_list ns + offset ns js"
| "offset _ _ = 0"

definition item :: "'a ndarray \<Rightarrow> nat list \<Rightarrow> 'a" where
  "item a idx = data a ! offset (shape a) idx"

definition amap :: "('a \<Rightarrow> 'b) \<Rightarrow> 'a ndarray \<Rightarrow> 'b ndarray" where
  "amap f a = \<lparr>shape = shape a, data = map f (data a)\<rparr>"

definition zeros :: "nat list \<Rightarrow> real ndarray" where
  "zeros s = \<lparr>shape = s, data = replicate (prod_list s) 0\<rparr>"

subsection \<open>Broadcasting\<close>

text \<open>
  Shapes are aligned at their last axis; two extents are compatible when they are equal
  or one of them is 1.  \<open>bc_rev\<close> works on the reversed shapes.
\<close>

fun bc_rev :: "nat list \<Rightarrow> nat list \<Rightarrow> nat list option" where
  "bc_rev [] ys = Some ys"
| "bc_rev xs [] = Some xs"
| "bc_rev (x # xs) (y # ys) =
     (if x = y \<or> y = 1 then map_option ((#) x) (bc_rev xs ys)
      else if x = 1 then map_option ((#) y) (bc_rev xs ys)
      else None)"

definition broadcast_shapes :: "nat list \<Rightarrow> nat list \<Rightarrow> nat list option" where
  "broadcast_shapes s t = map_option rev (bc_rev (rev s) (rev t))"

text \<open>The index of the source entry that a broadcast result reads at \<open>idx\<close>.\<close>

definition src_index :: "nat list \<Rightarrow> nat list \<Rightarrow> nat list" where
  "src_index s idx =
     map2 (\<lambda>n i. if n = 1 then 0 else i) s (drop (length idx - length s) idx)"

definition broadcast_to :: "'a ndarray \<Rightarrow> nat list \<Rightarrow> 'a ndarray" where
  "broadcast_to a t =
     \<lparr>shape = t, data = map (\<lambda>idx. item a (src_index (shape a) idx)) (indices t)\<rparr>"

text \<open>An elementwise binary operator on two arrays; incompatible shapes raise ValueError.\<close>

definition binop :: "('a \<Rightarrow> 'b \<Rightarrow> 'c) \<Rightarrow> 'a ndarray \<Rightarrow> 'b ndarray \<Rightarrow> error + 'c ndarray" where
  "binop f a b =
     (case broadcast_shapes (shape a) (shape b) of
        None \<Rightarrow> Inl ValueError
      | Some t \<Rightarrow>
          Inr \<lparr>shape = t,
               data = map2 f (data (broadcast_to a t)) (data (broadcast_to b t))\<rparr>)"

subsection \<open>The numpy functions the two modules call\<close>

text \<open>
  \<open>numpy.dot(a, b)\<close>: a product by a 0-d operand is elementwise; otherwise the last axis
  of \<open>a\<close> is summed against the only axis of a 1-d \<open>b\<close>, or against the second-to-last
  axis of \<open>b\<close>, and extents that differ raise ValueError.
\<close>

definition np_dot :: "real ndarray \<Rightarrow> real ndarray \<Rightarrow> error + real ndarray" where
  "np_dot a b =
     (if shape a = [] then Inr (amap (\<lambda>y. item a [] * y) b)
      else if shape b = [] then Inr (amap (\<lambda>x. x * item b []) a)
      else
        let k = last (shape a);
            lead = butlast (shape a);
            vec = (length (shape b) = 1);
            kb = (if vec then hd (shape b) else shape b ! (length (shape b) - 2));
            rest = (if vec then [] else butlast (butlast (shape b)) @ [last (shape b)])
        in if k \<noteq> kb then Inl ValueError
           else Inr \<lparr>shape = lead @ rest,
                     data = map (\<lambda>idx.
                         let i = take (length lead) idx; j = drop (length lead) idx
                         in (\<Sum>t\<leftarrow>[0..<k]. item a (i @ [t]) *
                               item b (if vec then [t] else butlast j @ [t, last j])))
                       (indices (lead @ rest))\<rparr>)"

text \<open>\<open>a.T\<close> reverses the axes.\<close>

definition transpose_nd :: "'a ndarray \<Rightarrow> 'a ndarray" where
  "transpose_nd a =
     \<lparr>shape = rev (shape a), data = map (\<lambda>idx. item a (rev idx)) (indices (rev (shape a)))\<rparr>"

text \<open>\<open>numpy.outer\<close> flattens both operands.\<close>

definition np_outer :: "real ndarray \<Rightarrow> real ndarray \<Rightarrow> real ndarray" where
  "np_outer a b =
     \<lparr>shape = [length (data a), length (data b)],
      data = concat (map (\<lambda>x. map (\<lambda>y. x * y) (data b)) (data a))\<rparr>"

definition np_sum :: "real ndarray \<Rightarrow> real" where
  "np_sum a = sum_list (data a)"

definition np_exp :: "real ndarray \<Rightarrow> real ndarray" where
  "np_exp a = amap exp a"

definition np_log :: "real ndarray \<Rightarrow> real ndarray" where
  "np_log a = amap ln a"

definition np_tanh :: "real ndarray \<Rightarrow> real ndarray" where
  "np_tanh a = amap tanh a"

definition np_neg :: "real ndarray \<Rightarrow> real ndarray" where
  "np_neg a = amap uminus a"

text \<open>A Python float on the left of an array operator acts on every entry.\<close>

definition scalar_add :: "real \<Rightarrow> real ndarray \<Rightarrow> real ndarray" where
  "scalar_add c a = amap (\<lambda>t. c + t) a"

definition scalar_div :: "real \<Rightarrow> real ndarray \<Rightarrow> real ndarray" where
  "scalar_div c a = amap (\<lambda>t. c / t) a"

definition np_maximum :: "real \<Rightarrow> real ndarray \<Rightarrow> real ndarray" where
  "np_maximum c a = amap (max c) a"

text \<open>\<open>numpy.array(b, dtype = numpy.float32)\<close> on a boolean array.\<close>

definition np_array_float32 :: "bool ndarray \<Rightarrow> real ndarray" where
  "np_array_float32 b = amap (\<lambda>p. if p then 1 else 0) b"

subsection \<open>The random source\<close>

text \<open>
  A call that samples reads the global generator.  The realisation of the draws of one
  call is a parameter: \<open>u k\<close> is the \<open>k\<close>-th number the generator hands out in that call
  (uniform on \<open>[0, 1)\<close> for \<open>random\<close> and \<open>uniform\<close>, standard normal for \<open>normal\<close>).
\<close>

type_synonym draws = "nat \<Rightarrow> real"

definition np_random_random :: "draws \<Rightarrow> nat list \<Rightarrow> real ndarray" where
  "np_random_random u s = \<lparr>shape = s, data = map u [0..<prod_list s]\<rparr>"

definition np_random_uniform :: "draws \<Rightarrow> real \<Rightarrow> real \<Rightarrow> nat list \<Rightarrow> real ndarray" where
  "np_random_uniform u low high s =
     \<lparr>shape = s, data = map (\<lambda>k. low + (high - low) * u k) [0..<prod_list s]\<rparr>"

definition np_random_normal ::
  "draws \<Rightarrow> real \<Rightarrow> real ndarray \<Rightarrow> nat list \<Rightarrow> error + real ndarray" where
  "np_random_normal z loc scale s =
     (if broadcast_shapes (shape scale) s = Some s
      then Inr \<lparr>shape = s,
                data = map2 (\<lambda>sd k. loc + sd * z k)
                         (data (broadcast_to scale s)) [0..<prod_list s]\<rparr>
      else Inl ValueError)"

section \<open>units.py\<close>

text \<open>
  What an expression of units.py can evaluate to: an array, a float, or one of the
  objects bound at module level (functions, the two dicts, the numpy module).
\<close>

datatype pyval = Array "real ndarray" | Float real | Global string

text \<open>The names units.py binds at module level: its import, its defs, its two dicts.\<close>

definition units_globals :: "string list" where
  "units_globals =
     [''numpy'', ''pthresh'', ''sigmoid'', ''tanh'', ''rectlinear'', ''linear'',
      ''dsigmoid'', ''dtanh'', ''dlinear'', ''drectlinear'', ''unittypes'', ''derivatives'']"

text \<open>
  Reading a name inside a function of units.py: the function's locals, then the module,
  then the builtins; a name bound in none of them raises NameError.  The only such name
  the module reads is \<open>a\<close>, which is not a builtin.
\<close>

definition load_name :: "(string \<times> pyval) list \<Rightarrow> string \<Rightarrow> error + pyval" where
  "load_name locals n =
     (case map_of locals n of
        Some v \<Rightarrow> Inr v
      | None \<Rightarrow> if n \<in> set units_globals then Inr (Global n) else Inl (NameError n))"

definition get_shape :: "pyval \<Rightarrow> error + nat list" where
  "get_shape v = (case v of Array a \<Rightarrow> Inr (shape a) | _ \<Rightarrow> Inl (AttributeError ''shape''))"

definition numpy_tanh :: "pyval \<Rightarrow> error + pyval" where
  "numpy_tanh v =
     (case v of Array a \<Rightarrow> Inr (Array (np_tanh a)) | Float r \<Rightarrow> Inr (Float (tanh r))
      | Global _ \<Rightarrow> Inl TypeError)"

subsection \<open>Activation functions\<close>

text \<open>\<^verbatim>\<open>return 1./(1.+numpy.exp(-x))\<close>\<close>

definition sigmoid :: "real ndarray \<Rightarrow> real ndarray" where
  "sigmoid x = scalar_div 1 (scalar_add 1 (np_exp (np_neg x)))"

text \<open>\<^verbatim>\<open>return numpy.array(sigmoid(x) >= numpy.random.random(x.shape), dtype = numpy.float32)\<close>\<close>

definition pthresh :: "draws \<Rightarrow> real ndarray \<Rightarrow> error + real ndarray" where
  "pthresh u x =
     bind_err (binop (\<lambda>p r. p \<ge> r) (sigmoid x) (np_random_random u (shape x)))
       (\<lambda>b. Inr (np_array_float32 b))"

text \<open>\<^verbatim>\<open>def tanh(x): return numpy.tanh(a)\<close> (HOL has a \<open>tanh\<close> of its own, hence \<open>tanh_unit\<close>.)\<close>

definition tanh_unit :: "real ndarray \<Rightarrow> error + pyval" where
  "tanh_unit x = bind_err (load_name [(''x'', Array x)] ''a'') numpy_tanh"

text \<open>
  \<^verbatim>\<open>return numpy.maximum(0., x + numpy.random.normal(0., sigmoid(x)+0.00001, a.shape))\<close>
  The arguments of \<open>normal\<close> are evaluated left to right, so \<open>a.shape\<close> is read before
  any number is drawn.
\<close>

definition rectlinear :: "draws \<Rightarrow> real ndarray \<Rightarrow> error + real ndarray" where
  "rectlinear z x =
     (let scale = scalar_add 0.00001 (sigmoid x)
      in bind_err (load_name [(''x'', Array x)] ''a'') (\<lambda>a.
         bind_err (get_shape a) (\<lambda>s.
         bind_err (np_random_normal z 0 scale s) (\<lambda>noise.
         bind_err (binop (+) x noise) (\<lambda>y.
         Inr (np_maximum 0 y))))))"

text \<open>\<^verbatim>\<open>def linear(x): return a\<close> (HOL has a \<open>linear\<close> of its own, hence \<open>linear_unit\<close>.)\<close>

definition linear_unit :: "real ndarray \<Rightarrow> error + pyval" where
  "linear_unit x = load_name [(''x'', Array x)] ''a''"

subsection \<open>Derivatives\<close>

text \<open>
  \<^verbatim>\<open>y * (1 - y)\<close>, \<^verbatim>\<open>1 - y**2\<close>, \<^verbatim>\<open>1.\<close> and \<^verbatim>\<open>numpy.array(y > 0, dtype = numpy.float32)\<close>:
  each combines \<open>y\<close> with itself or a scalar, so it acts entry by entry.
\<close>

definition dsigmoid :: "real ndarray \<Rightarrow> real ndarray" where
  "dsigmoid y = amap (\<lambda>t. t * (1 - t)) y"

definition dtanh :: "real ndarray \<Rightarrow> real ndarray" where
  "dtanh y = amap (\<lambda>t. 1 - t ^ 2) y"

definition dlinear :: "real ndarray \<Rightarrow> real" where
  "dlinear y = 1"

definition drectlinear :: "real ndarray \<Rightarrow> real ndarray" where
  "drectlinear y = np_array_float32 (amap (\<lambda>t. t > 0) y)"

subsection \<open>The two registries\<close>

text \<open>
  A registry value is a callable: it gets the draws of the call and the input array.
  The dict \<open>unittypes\<close> binds \<open>'tanh'\<close> to \<open>numpy.tanh\<close>, not to the module's own \<open>tanh\<close>.
\<close>

type_synonym activation = "draws \<Rightarrow> real ndarray \<Rightarrow> error + pyval"

definition unittypes :: "(string \<times> activation) list" where
  "unittypes =
     [(''pthresh'', \<lambda>u x. bind_err (pthresh u x) (\<lambda>y. Inr (Array y))),
      (''sigmoid'', \<lambda>u x. Inr (Array (sigmoid x))),
      (''tanh'', \<lambda>u x. numpy_tanh (Array x)),
      (''rectlinear'', \<lambda>u x. bind_err (rectlinear u x) (\<lambda>y. Inr (Array y))),
      (''linear'', \<lambda>u x. linear_unit x)]"

definition derivatives :: "(string \<times> (real ndarray \<Rightarrow> pyval)) list" where
  "derivatives =
     [(''sigmoid'', \<lambda>y. Array (dsigmoid y)),
      (''tanh'', \<lambda>y. Array (dtanh y)),
      (''rectlinear'', \<lambda>y. Array (drectlinear y)),
      (''linear'', \<lambda>y. Float (dlinear y))]"

text \<open>\<open>unittypes[name](x)\<close>: look the activation up and call it.\<close>

definition call_unit :: "string \<Rightarrow> draws \<Rightarrow> real ndarray \<Rightarrow> error + pyval" where
  "call_unit name u x = bind_err (getitem unittypes name) (\<lambda>f. f u x)"

text \<open>
  The functions units.py defines with \<open>def\<close> at module level, each as a callable.
  (\<open>unittypes\<close>, \<open>derivatives\<close> and \<open>numpy\<close> are module-level names that are not functions.)
\<close>

definition units_functions :: "(string \<times> activation) list" where
  "units_functions =
     [(''pthresh'', \<lambda>u x. bind_err (pthresh u x) (\<lambda>y. Inr (Array y))),
      (''sigmoid'', \<lambda>u x. Inr (Array (sigmoid x))),
      (''tanh'', \<lambda>u x. tanh_unit x),
      (''rectlinear'', \<lambda>u x. bind_err (rectlinear u x) (\<lambda>y. Inr (Array y))),
      (''linear'', \<lambda>u x. linear_unit x),
      (''dsigmoid'', \<lambda>u y. Inr (Array (dsigmoid y))),
      (''dtanh'', \<lambda>u y. Inr (Array (dtanh y))),
      (''dlinear'', \<lambda>u y. Inr (Float (dlinear y))),
      (''drectlinear'', \<lambda>u y. Inr (Array (drectlinear y)))]"

section \<open>rbm/rbm.py\<close>

subsection \<open>The import line\<close>

text \<open>
  \<^verbatim>\<open>from .. units import unittypes, sigmoid, rthresh, pthresh\<close>
  binds the listed names in order; the first one the module does not bind raises
  ImportError.  The import line is the first statement of rbm.py that can fail: the
  \<open>class\<close> statement after it runs only if it succeeds, so a program that imports the
  module gets the class \<open>Rbm\<close>, its constructor and its methods only then.
\<close>

fun import_from :: "string list \<Rightarrow> string list \<Rightarrow> error + string list" where
  "import_from bound [] = Inr []"
| "import_from bound (n # ns) =
     (if n \<in> set bound then bind_err (import_from bound ns) (\<lambda>rest. Inr (n # rest))
      else Inl (ImportError n))"

definition rbm_imports :: "error + string list" where
  "rbm_imports = import_from units_globals [''unittypes'', ''sigmoid'', ''rthresh'', ''pthresh'']"

text \<open>
  Calling a name that rbm.py takes from units.py: the name is there only if the import
  line bound it; a bound name that is no function is not callable.
\<close>

definition call_imported :: "string \<Rightarrow> draws \<Rightarrow> real ndarray \<Rightarrow> error + pyval" where
  "call_imported name u x =
     bind_err rbm_imports (\<lambda>names.
       if name \<in> set names
       then (case map_of units_functions name of Some f \<Rightarrow> f u x | None \<Rightarrow> Inl TypeError)
       else Inl (NameError name))"

subsection \<open>Objects and the heap\<close>

text \<open>
  numpy arrays are mutable objects: the model and a snapshot hold references to them.
  The heap maps a reference to the array it denotes; \<open>alloc\<close> is what creating a new
  array does, \<open>store\<close> is an in-place write to an existing one.
\<close>

type_synonym ref = nat

record heap =
  cells :: "ref \<Rightarrow> real ndarray"
  nxt :: ref

definition alloc :: "real ndarray \<Rightarrow> heap \<Rightarrow> ref \<times> heap" where
  "alloc a s = (nxt s, s\<lparr>cells := (cells s)(nxt s := a), nxt := Suc (nxt s)\<rparr>)"

definition store :: "ref \<Rightarrow> real ndarray \<Rightarrow> heap \<Rightarrow> heap" where
  "store r a s = s\<lparr>cells := (cells s)(r := a)\<rparr>"

record rbm =
  nvis :: nat
  nhid :: nat
  W :: ref
  vb :: ref
  hb :: ref
  dW :: ref
  dvb :: ref
  dhb :: ref
  htype :: string
  vtype :: string
  hact :: activation
  vact :: activation

text \<open>
  A method runs on \<open>self\<close> and the heap, and returns both with its result.  Each method
  is embedded twice: \<open>f_body\<close> is the body of \<open>def f\<close> as it reads, and \<open>f\<close> is what a
  program gets when it calls the method, which it can only do through the module.
\<close>

type_synonym state = "rbm \<times> heap"

subsection \<open>The constructor\<close>

definition default_vtype :: string where
  "default_vtype = ''pthresh''"

definition default_htype :: string where
  "default_htype = ''sigmoid''"

text \<open>
  The body of \<open>__init__\<close>, run for \<open>Rbm(nvis, nhid, vtype, htype)\<close>.  It assigns the
  attributes in source order: the arrays first, then the two names, then \<open>hact\<close> and \<open>vact\<close> by registry
  lookup.  The object under construction is reachable only through \<open>self\<close> inside
  \<open>__init__\<close>, so a call that raises has no value: the caller gets the exception
  and no object.  The layer sizes are unit counts, hence natural numbers; \<open>u\<close> is the
  realisation of the uniform draws for \<open>W\<close>.
\<close>

definition Rbm_init_body ::
  "draws \<Rightarrow> nat \<Rightarrow> nat \<Rightarrow> string \<Rightarrow> string \<Rightarrow> heap \<Rightarrow> (error + rbm) \<times> heap" where
  "Rbm_init_body u nv nh vt ht s0 =
     (let (rW, s1) = alloc (np_random_uniform u (- 0.2) 0.2 [nh, nv]) s0;
          (rvb, s2) = alloc (zeros [nv]) s1;
          (rhb, s3) = alloc (zeros [nh]) s2;
          (rdW, s4) = alloc (zeros [nh, nv]) s3;
          (rdvb, s5) = alloc (zeros [nv]) s4;
          (rdhb, s6) = alloc (zeros [nh]) s5
      in (bind_err (getitem unittypes ht) (\<lambda>ha.
          bind_err (getitem unittypes vt) (\<lambda>va.
          Inr \<lparr>nvis = nv, nhid = nh, W = rW, vb = rvb, hb = rhb,
               dW = rdW, dvb = rdvb, dhb = rdhb,
               htype = ht, vtype = vt, hact = ha, vact = va\<rparr>)), s6))"

text \<open>
  The body of \<open>__init__\<close> run with the defaults of its signature,
  \<^verbatim>\<open>vtype='pthresh', htype='sigmoid'\<close>.
\<close>

definition Rbm_default :: "draws \<Rightarrow> nat \<Rightarrow> nat \<Rightarrow> heap \<Rightarrow> (error + rbm) \<times> heap" where
  "Rbm_default u nv nh s0 = Rbm_init_body u nv nh default_vtype default_htype s0"

subsection \<open>Propagation and sampling\<close>

text \<open>\<^verbatim>\<open>return sigmoid(np.dot(self.W, v) + self.hb)\<close>\<close>

definition ff_body :: "state \<Rightarrow> real ndarray \<Rightarrow> (error + real ndarray) \<times> state" where
  "ff_body st v =
     (case st of (self, s) \<Rightarrow>
        (bind_err (np_dot (cells s (W self)) v) (\<lambda>a.
         bind_err (binop (+) a (cells s (hb self))) (\<lambda>b.
         Inr (sigmoid b))), st))"

text \<open>\<^verbatim>\<open>return sigmoid(np.dot(self.W.T, h) + self.vb)\<close>\<close>

definition fb_body :: "state \<Rightarrow> real ndarray \<Rightarrow> (error + real ndarray) \<times> state" where
  "fb_body st h =
     (case st of (self, s) \<Rightarrow>
        (bind_err (np_dot (transpose_nd (cells s (W self))) h) (\<lambda>a.
         bind_err (binop (+) a (cells s (vb self))) (\<lambda>b.
         Inr (sigmoid b))), st))"

text \<open>\<^verbatim>\<open>return rthresh(h)\<close> and \<^verbatim>\<open>return rthresh(v)\<close>\<close>

definition hid_sample :: "state \<Rightarrow> draws \<Rightarrow> real ndarray \<Rightarrow> (error + pyval) \<times> state" where
  "hid_sample st u h = (call_imported ''rthresh'' u h, st)"

definition vis_sample :: "state \<Rightarrow> draws \<Rightarrow> real ndarray \<Rightarrow> (error + pyval) \<times> state" where
  "vis_sample st u v = (call_imported ''rthresh'' u v, st)"

subsection \<open>Energies\<close>

text \<open>
  \<^verbatim>\<open>vbias_term = -1 *np.sum(v * self.vb)\<close>
  \<^verbatim>\<open>hidden_term = -1 * np.sum(np.log(1 + np.exp(np.dot(self.W, v) + self.hb)))\<close>
  \<^verbatim>\<open>return vbias_term + hidden_term\<close>
\<close>

definition free_energy_body :: "state \<Rightarrow> real ndarray \<Rightarrow> (error + real) \<times> state" where
  "free_energy_body st v =
     (case st of (self, s) \<Rightarrow>
        (bind_err (binop (*) v (cells s (vb self))) (\<lambda>xv.
         let vbias_term = - 1 * np_sum xv in
         bind_err (np_dot (cells s (W self)) v) (\<lambda>a.
         bind_err (binop (+) a (cells s (hb self))) (\<lambda>b.
         let hidden_term = - 1 * np_sum (np_log (scalar_add 1 (np_exp b))) in
         Inr (vbias_term + hidden_term)))), st))"

text \<open>
  \<^verbatim>\<open>vbias_term = -1 * np.sum(v * self.vb)\<close>
  \<^verbatim>\<open>hbias_term = -1 * np.sum(h * self.hb)\<close>
  \<^verbatim>\<open>vhterm = -1 * np.sum(self.W * np.outer(h, v))\<close>
  \<^verbatim>\<open>return vbias_term + hbias_term + vhterm\<close>
\<close>

definition energy_body :: "state \<Rightarrow> real ndarray \<Rightarrow> real ndarray \<Rightarrow> (error + real) \<times> state" where
  "energy_body st v h =
     (case st of (self, s) \<Rightarrow>
        (bind_err (binop (*) v (cells s (vb self))) (\<lambda>xv.
         let vbias_term = - 1 * np_sum xv in
         bind_err (binop (*) h (cells s (hb self))) (\<lambda>xh.
         let hbias_term = - 1 * np_sum xh in
         bind_err (binop (*) (cells s (W self)) (np_outer h v)) (\<lambda>xw.
         let vhterm = - 1 * np_sum xw in
         Inr (vbias_term + hbias_term + vhterm)))), st))"

subsection \<open>Snapshot and restore\<close>

text \<open>
  The dict \<open>__getstate__\<close> builds has exactly these ten keys.  Its array entries are
  references to the copies \<open>.copy()\<close> creates, in the order the dict literal lists them.
\<close>

record state_dict =
  d_nvis :: nat
  d_nhid :: nat
  d_vtype :: string
  d_htype :: string
  d_W :: ref
  d_vb :: ref
  d_hb :: ref
  d_dW :: ref
  d_dhb :: ref
  d_dvb :: ref

definition getstate_body :: "state \<Rightarrow> state_dict \<times> state" where
  "getstate_body st =
     (case st of (self, s0) \<Rightarrow>
        let (rW, s1) = alloc (cells s0 (W self)) s0;
            (rvb, s2) = alloc (cells s1 (vb self)) s1;
            (rhb, s3) = alloc (cells s2 (hb self)) s2;
            (rdW, s4) = alloc (cells s3 (dW self)) s3;
            (rdhb, s5) = alloc (cells s4 (dhb self)) s4;
            (rdvb, s6) = alloc (cells s5 (dvb self)) s5
        in (\<lparr>d_nvis = nvis self, d_nhid = nhid self,
             d_vtype = vtype self, d_htype = htype self,
             d_W = rW, d_vb = rvb, d_hb = rhb, d_dW = rdW, d_dhb = rdhb, d_dvb = rdvb\<rparr>,
            (self, s6)))"

text \<open>
  \<open>__setstate__\<close> assigns the dict's entries to \<open>self\<close> (the arrays by reference, with no
  copy) and then looks \<open>vact\<close> and \<open>hact\<close> up; a failed lookup leaves the assignments
  made so far.
\<close>

definition setstate_body :: "state \<Rightarrow> state_dict \<Rightarrow> (error + unit) \<times> state" where
  "setstate_body st d =
     (case st of (self, s) \<Rightarrow>
        let self1 = self\<lparr>nvis := d_nvis d, nhid := d_nhid d,
                          vtype := d_vtype d, htype := d_htype d,
                          W := d_W d, vb := d_vb d, hb := d_hb d,
                          dW := d_dW d, dvb := d_dvb d, dhb := d_dhb d\<rparr>
        in (case getitem unittypes (vtype self1) of
              Inl e \<Rightarrow> (Inl e, (self1, s))
            | Inr f \<Rightarrow>
                (case getitem unittypes (htype self1) of
                   Inl e \<Rightarrow> (Inl e, (self1\<lparr>vact := f\<rparr>, s))
                 | Inr g \<Rightarrow> (Inr (), (self1\<lparr>vact := f, hact := g\<rparr>, s)))))"

subsection \<open>The shape invariant of a model\<close>

definition model_shaped :: "state \<Rightarrow> bool" where
  "model_shaped st \<longleftrightarrow>
     (case st of (self, s) \<Rightarrow>
        shape (cells s (W self)) = [nhid self, nvis self] \<and> well_shaped (cells s (W self)) \<and>
        shape (cells s (vb self)) = [nvis self] \<and> well_shaped (cells s (vb self)) \<and>
        shape (cells s (hb self)) = [nhid self] \<and> well_shaped (cells s (hb self)))"

definition vector_of :: "nat \<Rightarrow> real ndarray \<Rightarrow> bool" where
  "vector_of n v \<longleftrightarrow> shape v = [n] \<and> well_shaped v"

definition refs_allocated :: "state \<Rightarrow> bool" where
  "refs_allocated st \<longleftrightarrow>
     (case st of (self, s) \<Rightarrow>
        W self < nxt s \<and> vb self < nxt s \<and> hb self < nxt s \<and>
        dW self < nxt s \<and> dvb self < nxt s \<and> dhb self < nxt s)"

subsection \<open>The class as a program reaches it\<close>

text \<open>
  \<open>through_module st run\<close> is a call into rbm.py from a program in state \<open>st\<close>: when the
  import line raises, the program gets that exception and the state is untouched;
  otherwise it gets what the body does.
\<close>

definition through_module :: "'s \<Rightarrow> (error + 'a) \<times> 's \<Rightarrow> (error + 'a) \<times> 's" where
  "through_module st run = (case rbm_imports of Inl e \<Rightarrow> (Inl e, st) | Inr names \<Rightarrow> run)"

definition Rbm_init ::
  "draws \<Rightarrow> nat \<Rightarrow> nat \<Rightarrow> string \<Rightarrow> string \<Rightarrow> heap \<Rightarrow> (error + rbm) \<times> heap" where
  "Rbm_init u nv nh vt ht s0 = through_module s0 (Rbm_init_body u nv nh vt ht s0)"

definition ff :: "state \<Rightarrow> real ndarray \<Rightarrow> (error + real ndarray) \<times> state" where
  "ff st v = through_module st (ff_body st v)"

definition fb :: "state \<Rightarrow> real ndarray \<Rightarrow> (error + real ndarray) \<times> state" where
  "fb st h = through_module st (fb_body st h)"

definition free_energy :: "state \<Rightarrow> real ndarray \<Rightarrow> (error + real) \<times> state" where
  "free_energy st v = through_module st (free_energy_body st v)"

definition energy :: "state \<Rightarrow> real ndarray \<Rightarrow> real ndarray \<Rightarrow> (error + real) \<times> state" where
  "energy st v h = through_module st (energy_body st v h)"

definition getstate :: "state \<Rightarrow> (error + state_dict) \<times> state" where
  "getstate st = through_module st (case getstate_body st of (d, st') \<Rightarrow> (Inr d, st'))"

definition setstate :: "state \<Rightarrow> state_dict \<Rightarrow> (error + unit) \<times> state" where
  "setstate st d = through_module st (setstate_body st d)"

section \<open>The specification's wording\<close>

text \<open>
  The specification describes \<open>pthresh\<close> with a strict comparison: an entry is \<open>1.0\<close>
  if the uniform draw is \<open>< sigmoid(x)\<close> and \<open>0.0\<close> otherwise.  This is that wording, to
  be compared with the function of units.py.
\<close>

definition pthresh_spec :: "draws \<Rightarrow> real ndarray \<Rightarrow> real ndarray" where
  "pthresh_spec u x =
     \<lparr>shape = shape x,
      data = map (\<lambda>k. if u k < 1 / (1 + exp (- (data x ! k))) then 1 else 0)
               [0..<length (data x)]\<rparr>"

section \<open>Example models\<close>

text \<open>
  A model as the constructor lays it out (references 0 to 5, default activation names)
  with given contents for \<open>W\<close>, \<open>vb\<close> and \<open>hb\<close>.  \<open>check_heap\<close> holds the specification's
  fixed-point check (\<open>W = [[1, -1]]\<close>, zero biases); \<open>copy_heap\<close> holds
  \<open>W = [[1, 2]]\<close>, whose energy at \<open>v = [1, 1]\<close>, \<open>h = [1]\<close> is not that of a zero matrix.
\<close>

definition array1 :: "real list \<Rightarrow> real ndarray" where
  "array1 xs = \<lparr>shape = [length xs], data = xs\<rparr>"

definition array2 :: "nat \<Rightarrow> nat \<Rightarrow> real list \<Rightarrow> real ndarray" where
  "array2 p q xs = \<lparr>shape = [p, q], data = xs\<rparr>"

definition heap_of :: "real ndarray \<Rightarrow> real ndarray \<Rightarrow> real ndarray \<Rightarrow> heap" where
  "heap_of w bv bh =
     \<lparr>cells = (\<lambda>r. if r = 0 then w else if r = 1 then bv else if r = 2 then bh
                  else if r = 3 then zeros (shape w) else if r = 4 then zeros (shape bv)
                  else zeros (shape bh)),
      nxt = 6\<rparr>"

definition rbm_of :: "nat \<Rightarrow> nat \<Rightarrow> rbm" where
  "rbm_of nv nh =
     \<lparr>nvis = nv, nhid = nh, W = 0, vb = 1, hb = 2, dW = 3, dvb = 4, dhb = 5,
      htype = ''sigmoid'', vtype = ''pthresh'',
      hact = (\<lambda>u x. Inr (Array (sigmoid x))),
      vact = (\<lambda>u x. bind_err (pthresh u x) (\<lambda>y. Inr (Array y)))\<rparr>"

definition empty_heap :: heap where
  "empty_heap = \<lparr>cells = (\<lambda>r. zeros [0]), nxt = 0\<rparr>"

definition check_heap :: heap where
  "check_heap = heap_of (array2 1 2 [1, - 1]) (array1 [0, 0]) (array1 [0])"

definition copy_heap :: heap where
  "copy_heap = heap_of (array2 1 2 [1, 2]) (array1 [0, 0]) (array1 [0])"

section \<open>Facts about arrays\<close>

lemma concat_shift_upt:
  "concat (map (\<lambda>i. map (\<lambda>k. i * p + k) [0..<p]) [0..<n]) = [0..<n * p]"
proof (induction n)
  case 0
  show ?case by simp
next
  case (Suc n)
  have "map (\<lambda>k. n * p + k) [0..<p] = [n * p..<n * p + p]"
    using map_add_upt [of "n * p" p] by (simp add: add.commute)
  moreover have "[0..<n * p + p] = [0..<n * p] @ [n * p..<n * p + p]"
    using upt_add_eq_append [of 0 "n * p" p] by simp
  ultimately have "concat (map (\<lambda>i. map (\<lambda>k. i * p + k) [0..<p]) [0..<Suc n]) = [0..<n * p + p]"
    using Suc by simp
  then show ?case by (simp add: add.commute)
qed

lemma offset_indices: "map (offset s) (indices s) = [0..<prod_list s]"
proof (induction s)
  case Nil
  show ?case by simp
next
  case (Cons n ns)
  have "map (offset (n # ns)) (indices (n # ns))
      = concat (map (\<lambda>i. map (\<lambda>k. i * prod_list ns + k) (map (offset ns) (indices ns))) [0..<n])"
    by (simp add: map_concat comp_def)
  then show ?case using Cons by (simp add: concat_shift_upt)
qed

lemma length_indices: "length (indices s) = prod_list s"
  using arg_cong [OF offset_indices, of length s] by simp

lemma indices_length: "idx \<in> set (indices s) \<Longrightarrow> length idx = length s"
  by (induction s arbitrary: idx) auto

lemma indices_bound: "idx \<in> set (indices s) \<Longrightarrow> list_all2 (<) idx s"
  by (induction s arbitrary: idx) auto

lemma src_index_same: "idx \<in> set (indices s) \<Longrightarrow> src_index s idx = idx"
proof -
  assume a: "idx \<in> set (indices s)"
  have "list_all2 (<) idx s \<Longrightarrow> map2 (\<lambda>n i. if n = 1 then 0 else i) s idx = idx"
    by (induction idx s rule: list_all2_induct) auto
  then show ?thesis using a by (simp add: src_index_def indices_length indices_bound)
qed

lemma broadcast_to_same: "well_shaped a \<Longrightarrow> broadcast_to a (shape a) = a"
proof -
  assume w: "well_shaped a"
  have "map (\<lambda>idx. item a (src_index (shape a) idx)) (indices (shape a))
      = map (\<lambda>idx. data a ! offset (shape a) idx) (indices (shape a))"
    by (rule map_cong) (simp_all add: src_index_same item_def)
  also have "\<dots> = map ((!) (data a)) (map (offset (shape a)) (indices (shape a)))"
    by (simp add: comp_def)
  also have "\<dots> = data a"
    using map_nth [of "data a"] w by (simp add: offset_indices well_shaped_def)
  finally show ?thesis by (simp add: broadcast_to_def)
qed

lemma bc_rev_same: "bc_rev s s = Some s"
  by (induction s) auto

lemma broadcast_shapes_same: "broadcast_shapes s s = Some s"
  by (simp add: broadcast_shapes_def bc_rev_same)

lemma binop_same_shape:
  "well_shaped a \<Longrightarrow> well_shaped b \<Longrightarrow> shape a = shape b \<Longrightarrow>
   binop f a b = Inr \<lparr>shape = shape a, data = map2 f (data a) (data b)\<rparr>"
  using broadcast_to_same [of a] broadcast_to_same [of b]
  by (simp add: binop_def broadcast_shapes_same)

lemma indices_1: "indices [m] = map (\<lambda>j. [j]) [0..<m]"
  by simp

lemma np_dot_matrix_vector:
  assumes "shape a = [m, n]" "shape b = [n]"
  shows "np_dot a b =
     Inr \<lparr>shape = [m],
          data = map (\<lambda>j. \<Sum>t\<leftarrow>[0..<n]. item a [j, t] * item b [t]) [0..<m]\<rparr>"
  using assms by (simp add: np_dot_def Let_def indices_1 comp_def)

lemma item_1: "shape a = [n] \<Longrightarrow> item a [j] = data a ! j"
  by (simp add: item_def)

lemma item_2: "shape a = [p, q] \<Longrightarrow> item a [j, i] = data a ! (j * q + i)"
  by (simp add: item_def)

lemma map2_map_upt:
  "length ys = m \<Longrightarrow> map2 f (map g [0..<m]) ys = map (\<lambda>j. f (g j) (ys ! j)) [0..<m]"
  by (rule nth_equalityI) simp_all

lemma sum_list_upt: "(\<Sum>i\<leftarrow>[0..<n]. f i) = (\<Sum>i<n. f i)"
  by (simp add: interv_sum_list_conv_sum_set_nat atLeast0LessThan)

lemma sum_list_map2_nth:
  "length xs = n \<Longrightarrow> length ys = n \<Longrightarrow> sum_list (map2 f xs ys) = (\<Sum>i<n. f (xs ! i) (ys ! i))"
proof -
  assume a: "length xs = n" "length ys = n"
  have "map2 f xs ys = map (\<lambda>i. f (xs ! i) (ys ! i)) [0..<n]"
    using a by (intro nth_equalityI) simp_all
  then show ?thesis by (simp add: sum_list_upt)
qed

lemma data_by_rows:
  assumes "length xs = p * q"
  shows "xs = concat (map (\<lambda>j. map (\<lambda>i. xs ! (j * q + i)) [0..<q]) [0..<p])"
proof -
  have "map ((!) xs) (concat (map (\<lambda>j. map (\<lambda>i. j * q + i) [0..<q]) [0..<p])) = xs"
    using assms map_nth [of xs] by (simp add: concat_shift_upt)
  then show ?thesis by (simp add: map_concat comp_def)
qed

lemma outer_by_rows:
  "concat (map (\<lambda>x. map (\<lambda>y. x * y) ys) xs)
   = concat (map (\<lambda>j. map (\<lambda>i. xs ! j * ys ! i) [0..<length ys]) [0..<length xs])"
proof -
  have r: "\<And>x. map (\<lambda>y. x * y) ys = map (\<lambda>i. x * ys ! i) [0..<length ys]"
    by (intro nth_equalityI) simp_all
  have "map (\<lambda>x. map (\<lambda>y. x * y) ys) xs
      = map (\<lambda>j. map (\<lambda>i. xs ! j * ys ! i) [0..<length ys]) [0..<length xs]"
    by (intro nth_equalityI) (simp_all add: r)
  then show ?thesis by simp
qed

lemma map2_rows:
  "map2 f (concat (map (\<lambda>j. map (g j) [0..<q]) [0..<p]))
          (concat (map (\<lambda>j. map (h j) [0..<q]) [0..<p]))
   = concat (map (\<lambda>j. map (\<lambda>i. f (g j i) (h j i)) [0..<q]) [0..<p])"
proof (induction p)
  case 0
  show ?case by simp
next
  case (Suc p)
  have l: "length (concat (map (\<lambda>j. map (g j) [0..<q]) [0..<p]))
         = length (concat (map (\<lambda>j. map (h j) [0..<q]) [0..<p]))"
    by (simp add: length_concat comp_def)
  have m: "map2 f (map (g p) [0..<q]) (map (h p) [0..<q]) = map (\<lambda>i. f (g p i) (h p i)) [0..<q]"
    by (intro nth_equalityI) simp_all
  show ?case using Suc l m by simp
qed

lemma sum_list_rows:
  "sum_list (concat (map (\<lambda>j. map (g j) [0..<q]) [0..<p])) = (\<Sum>j<p. \<Sum>i<q. (g j i :: real))"
  by (induction p) (simp_all add: sum_list_upt)

lemma upt_2: "[0..<2] = [0, Suc 0]"
  by (simp add: upt_rec)

section \<open>units.py: the activation functions\<close>

lemma a_unbound: "load_name [(''x'', Array x)] ''a'' = Inl (NameError ''a'')"
  by (simp add: load_name_def units_globals_def)

lemma sigmoid_data: "sigmoid x = \<lparr>shape = shape x, data = map (\<lambda>t. 1 / (1 + exp (- t))) (data x)\<rparr>"
  by (simp add: sigmoid_def scalar_div_def scalar_add_def np_exp_def np_neg_def amap_def comp_def)

lemma well_shaped_sigmoid: "well_shaped x \<Longrightarrow> well_shaped (sigmoid x)"
  by (simp add: sigmoid_data well_shaped_def)

lemma sigmoid_map:
  "sigmoid \<lparr>shape = s, data = map f xs\<rparr> =
     \<lparr>shape = s, data = map (\<lambda>x. 1 / (1 + exp (- f x))) xs\<rparr>"
  by (simp add: sigmoid_data comp_def)

text \<open>
  Claim C5: for every input array \<open>x\<close>, the registry activation \<open>linear\<close> returns \<open>x\<close>
  unchanged.  The code does not: the body of \<open>linear\<close> returns the name \<open>a\<close>, which is
  bound neither in the function nor in the module, so every call raises NameError, both
  directly and through \<open>unittypes['linear']\<close>.
\<close>

theorem linear_raises:
  "linear_unit x = Inl (NameError ''a'') \<and> call_unit ''linear'' u x = Inl (NameError ''a'')"
  by (simp add: linear_unit_def a_unbound call_unit_def getitem_def unittypes_def bind_err_def)

text \<open>
  Claim C6: for every input array \<open>x\<close>, the registry activation \<open>rectlinear\<close> returns
  \<open>max(0, x + noise)\<close> with noise of standard deviation \<open>sigmoid(x) + 1e-5\<close>.  The code
  does not: the size it passes to \<open>numpy.random.normal\<close> is \<open>a.shape\<close> with \<open>a\<close> unbound,
  so every call raises NameError before any number is drawn.
\<close>

theorem rectlinear_raises:
  "rectlinear z x = Inl (NameError ''a'')
   \<and> call_unit ''rectlinear'' z x = Inl (NameError ''a'')"
  by (simp add: rectlinear_def a_unbound call_unit_def getitem_def unittypes_def bind_err_def)

text \<open>
  Claim C7, as amended: for every input array \<open>x\<close> and every realisation \<open>u\<close> of the
  uniform draws, \<open>pthresh(x)\<close> has the shape of \<open>x\<close> and its entry \<open>k\<close> is \<open>1.0\<close> if
  \<open>u\<^sub>k \<le> sigmoid(x\<^sub>k)\<close> and \<open>0.0\<close> otherwise (the comparison is \<open>>=\<close>, not strict).
\<close>

theorem pthresh_ge:
  assumes "well_shaped x"
  shows "pthresh u x =
     Inr \<lparr>shape = shape x,
          data = map (\<lambda>k. if u k \<le> 1 / (1 + exp (- (data x ! k))) then 1 else 0)
                   [0..<length (data x)]\<rparr>"
proof -
  let ?r = "np_random_random u (shape x)"
  have wr: "well_shaped ?r" using assms by (simp add: np_random_random_def well_shaped_def)
  have sh: "shape (sigmoid x) = shape ?r" by (simp add: sigmoid_data np_random_random_def)
  have len: "prod_list (shape x) = length (data x)" using assms by (simp add: well_shaped_def)
  have "binop (\<lambda>p r. p \<ge> r) (sigmoid x) ?r =
      Inr \<lparr>shape = shape x, data = map2 (\<lambda>p r. p \<ge> r) (data (sigmoid x)) (data ?r)\<rparr>"
    using binop_same_shape [OF well_shaped_sigmoid [OF assms] wr sh] by (simp add: sigmoid_data)
  moreover have "map2 (\<lambda>p r. p \<ge> r) (data (sigmoid x)) (data ?r)
      = map (\<lambda>k. u k \<le> 1 / (1 + exp (- (data x ! k)))) [0..<length (data x)]"
    by (rule nth_equalityI) (simp_all add: sigmoid_data np_random_random_def len)
  ultimately show ?thesis
    by (simp add: pthresh_def bind_err_def np_array_float32_def amap_def comp_def)
qed

theorem pthresh_ge_witness:
  "well_shaped \<lparr>shape = [2], data = [0, 0 :: real]\<rparr> \<and>
   pthresh (\<lambda>k. if k = 0 then 1 / 2 else 3 / 4) \<lparr>shape = [2], data = [0, 0]\<rparr>
     = Inr \<lparr>shape = [2], data = [1, 0]\<rparr>"
proof -
  have w: "well_shaped \<lparr>shape = [2], data = [0, 0 :: real]\<rparr>" by (simp add: well_shaped_def)
  have u: "[0..<2] = [0, Suc 0]" by (simp add: upt_rec)
  show ?thesis
    using w pthresh_ge [OF w, of "\<lambda>k. if k = 0 then 1 / 2 else 3 / 4"] by (simp add: u)
qed

text \<open>
  Claim C7, as stated, fails where a draw equals the probability: for \<open>x = [0]\<close> and
  the draw \<open>0.5 = sigmoid(0)\<close> the code returns \<open>[1.0]\<close>, the strict comparison of the
  specification gives \<open>[0.0]\<close>.
\<close>

theorem pthresh_lt_counterexample:
  "pthresh (\<lambda>k. 1 / 2) \<lparr>shape = [1], data = [0]\<rparr> = Inr \<lparr>shape = [1], data = [1]\<rparr>
   \<and> pthresh_spec (\<lambda>k. 1 / 2) \<lparr>shape = [1], data = [0]\<rparr> = \<lparr>shape = [1], data = [0]\<rparr>
   \<and> pthresh (\<lambda>k. 1 / 2) \<lparr>shape = [1], data = [0]\<rparr>
       \<noteq> Inr (pthresh_spec (\<lambda>k. 1 / 2) \<lparr>shape = [1], data = [0]\<rparr>)"
proof -
  have a: "pthresh (\<lambda>k. 1 / 2) \<lparr>shape = [1], data = [0]\<rparr> = Inr \<lparr>shape = [1], data = [1]\<rparr>"
    by (simp add: pthresh_def bind_err_def binop_def broadcast_shapes_def broadcast_to_def
        src_index_def item_def sigmoid_data np_random_random_def np_array_float32_def amap_def)
  have b: "pthresh_spec (\<lambda>k. 1 / 2) \<lparr>shape = [1], data = [0]\<rparr> = \<lparr>shape = [1], data = [0]\<rparr>"
    by (simp add: pthresh_spec_def)
  show ?thesis unfolding a b by simp
qed

text \<open>
  Claim C10: \<open>'pthresh'\<close> is a key of the activation registry and the default \<open>vtype\<close>
  of the constructor's signature, so a model that the body of \<open>__init__\<close> builds with the
  defaults has
  \<open>vtype = 'pthresh'\<close>; but the derivative registry has no entry for it, so looking the
  derivative up by that name raises KeyError.
\<close>

theorem derivatives_no_pthresh:
  "(\<exists>f. getitem unittypes ''pthresh'' = Inr f)
   \<and> (\<exists>m. fst (Rbm_default u nv nh s) = Inr m \<and> vtype m = ''pthresh''
          \<and> getitem derivatives (vtype m) = Inl (KeyError ''pthresh''))
   \<and> getitem derivatives ''pthresh'' = Inl (KeyError ''pthresh'')
   \<and> default_vtype = ''pthresh''
   \<and> getitem derivatives default_vtype = Inl (KeyError ''pthresh'')"
  by (simp add: getitem_def unittypes_def derivatives_def default_vtype_def default_htype_def
      Rbm_default_def Rbm_init_body_def alloc_def bind_err_def Let_def split_def)

section \<open>rbm.py: the method bodies\<close>

lemma check_shaped: "model_shaped (rbm_of 2 1, check_heap)"
  by (simp add: model_shaped_def rbm_of_def check_heap_def heap_of_def array1_def array2_def
      well_shaped_def)

text \<open>
  The body of \<open>ff\<close>: for a model that satisfies the shape invariant and a visible
  vector \<open>v\<close> of length \<open>nvis\<close> it computes \<open>sigmoid(W\<cdot>v + hb)\<close>, a vector of length
  \<open>nhid\<close>, assigns nothing, and reads neither \<open>htype\<close> nor \<open>hact\<close>.
\<close>

lemma ff_body_sigmoid:
  assumes "model_shaped (m, s)" "vector_of (nvis m) v"
  shows "ff_body (m, s) v =
     (Inr \<lparr>shape = [nhid m],
           data = map (\<lambda>j. 1 / (1 + exp (- ((\<Sum>i\<leftarrow>[0..<nvis m].
                     item (cells s (W m)) [j, i] * item v [i]) + item (cells s (hb m)) [j]))))
                    [0..<nhid m]\<rparr>, (m, s))
     \<and> fst (ff_body (m\<lparr>htype := t, hact := f\<rparr>, s) v) = fst (ff_body (m, s) v)"
proof -
  let ?W = "cells s (W m)" and ?hb = "cells s (hb m)"
  let ?a = "\<lparr>shape = [nhid m],
      data = map (\<lambda>j. \<Sum>t\<leftarrow>[0..<nvis m]. item ?W [j, t] * item v [t]) [0..<nhid m]\<rparr>"
  have shW: "shape ?W = [nhid m, nvis m]" and shb: "shape ?hb = [nhid m]"
    and wb: "well_shaped ?hb"
    using assms(1) by (simp_all add: model_shaped_def)
  have shv: "shape v = [nvis m]" using assms(2) by (simp add: vector_of_def)
  have dot: "np_dot ?W v = Inr ?a" by (rule np_dot_matrix_vector [OF shW shv])
  have wa: "well_shaped ?a" by (simp add: well_shaped_def)
  have lb: "length (data ?hb) = nhid m" using wb shb by (simp add: well_shaped_def)
  have add: "binop (+) ?a ?hb =
      Inr \<lparr>shape = [nhid m],
           data = map (\<lambda>j. (\<Sum>t\<leftarrow>[0..<nvis m]. item ?W [j, t] * item v [t]) + item ?hb [j])
                    [0..<nhid m]\<rparr>"
    using binop_same_shape [OF wa wb, of "(+)"] shb lb by (simp add: map2_map_upt item_1)
  have "ff_body (m, s) v = (Inr (sigmoid \<lparr>shape = [nhid m],
           data = map (\<lambda>j. (\<Sum>t\<leftarrow>[0..<nvis m]. item ?W [j, t] * item v [t]) + item ?hb [j])
                    [0..<nhid m]\<rparr>), (m, s))"
    by (simp add: ff_body_def dot add bind_err_def)
  then have 1: "ff_body (m, s) v =
     (Inr \<lparr>shape = [nhid m],
           data = map (\<lambda>j. 1 / (1 + exp (- ((\<Sum>i\<leftarrow>[0..<nvis m].
                     item ?W [j, i] * item v [i]) + item ?hb [j]))))
                    [0..<nhid m]\<rparr>, (m, s))"
    by (simp only: sigmoid_map)
  have 2: "fst (ff_body (m\<lparr>htype := t, hact := f\<rparr>, s) v) = fst (ff_body (m, s) v)"
    by (simp add: ff_body_def)
  show ?thesis using 1 2 by blast
qed

lemma ff_body_example:
  "model_shaped (rbm_of 2 1, check_heap) \<and> vector_of (nvis (rbm_of 2 1)) (array1 [1, 1])
   \<and> ff_body (rbm_of 2 1, check_heap) (array1 [1, 1])
       = (Inr \<lparr>shape = [1], data = [1 / 2]\<rparr>, (rbm_of 2 1, check_heap))"
proof -
  have v: "vector_of (nvis (rbm_of 2 1)) (array1 [1, 1])"
    by (simp add: vector_of_def array1_def well_shaped_def rbm_of_def)
  have "ff_body (rbm_of 2 1, check_heap) (array1 [1, 1])
       = (Inr \<lparr>shape = [1], data = [1 / 2]\<rparr>, (rbm_of 2 1, check_heap))"
    using ff_body_sigmoid [OF check_shaped v, THEN conjunct1]
    by (simp add: rbm_of_def check_heap_def heap_of_def array1_def array2_def item_def upt_2)
  then show ?thesis using check_shaped v by simp
qed

text \<open>
  The body of \<open>energy\<close>: for a model that satisfies the shape invariant, a visible
  vector \<open>v\<close> of length \<open>nvis\<close> and a hidden vector \<open>h\<close> of length \<open>nhid\<close> it computes
  \<open>- \<Sum>\<^sub>i v\<^sub>i vb\<^sub>i - \<Sum>\<^sub>j h\<^sub>j hb\<^sub>j - \<Sum>\<^sub>j \<Sum>\<^sub>i W\<^sub>j\<^sub>i h\<^sub>j v\<^sub>i\<close>.  The example is the specification's
  check: \<open>W = [[1, -1]]\<close>, zero biases, \<open>v = [1, 1]\<close>, \<open>h = [1]\<close> give 0.
\<close>

lemma energy_body_formula:
  assumes "model_shaped (m, s)" "vector_of (nvis m) v" "vector_of (nhid m) h"
  shows "energy_body (m, s) v h =
     (Inr (- (\<Sum>i<nvis m. item v [i] * item (cells s (vb m)) [i])
           - (\<Sum>j<nhid m. item h [j] * item (cells s (hb m)) [j])
           - (\<Sum>j<nhid m. \<Sum>i<nvis m. item (cells s (W m)) [j, i] * item h [j] * item v [i])),
      (m, s))"
proof -
  let ?W = "cells s (W m)" and ?hb = "cells s (hb m)" and ?vb = "cells s (vb m)"
  have shW: "shape ?W = [nhid m, nvis m]" and wW: "well_shaped ?W"
    and shvb: "shape ?vb = [nvis m]" and wvb: "well_shaped ?vb"
    and shhb: "shape ?hb = [nhid m]" and whb: "well_shaped ?hb"
    using assms(1) by (simp_all add: model_shaped_def)
  have shv: "shape v = [nvis m]" and wv: "well_shaped v"
    and shh: "shape h = [nhid m]" and wh: "well_shaped h"
    using assms(2,3) by (simp_all add: vector_of_def)
  have lv: "length (data v) = nvis m" and lvb: "length (data ?vb) = nvis m"
    and lh: "length (data h) = nhid m" and lhb: "length (data ?hb) = nhid m"
    and lW: "length (data ?W) = nhid m * nvis m"
    using wv shv wvb shvb wh shh whb shhb wW shW by (simp_all add: well_shaped_def)
  have t1: "bind_err (binop (*) v ?vb) k = k \<lparr>shape = [nvis m], data = map2 (*) (data v) (data ?vb)\<rparr>"
    for k :: "real ndarray \<Rightarrow> error + real"
    using binop_same_shape [OF wv wvb, of "(*)"] shv shvb by (simp add: bind_err_def)
  have t2: "bind_err (binop (*) h ?hb) k = k \<lparr>shape = [nhid m], data = map2 (*) (data h) (data ?hb)\<rparr>"
    for k :: "real ndarray \<Rightarrow> error + real"
    using binop_same_shape [OF wh whb, of "(*)"] shh shhb by (simp add: bind_err_def)
  have wo: "well_shaped (np_outer h v)"
    by (simp add: np_outer_def well_shaped_def length_concat comp_def sum_list_triv)
  have so: "shape ?W = shape (np_outer h v)" using shW lv lh by (simp add: np_outer_def)
  have t3: "bind_err (binop (*) ?W (np_outer h v)) k
      = k \<lparr>shape = [nhid m, nvis m], data = map2 (*) (data ?W) (data (np_outer h v))\<rparr>"
    for k :: "real ndarray \<Rightarrow> error + real"
    using binop_same_shape [OF wW wo so, of "(*)"] shW by (simp add: bind_err_def)
  have s1: "sum_list (map2 (*) (data v) (data ?vb)) = (\<Sum>i<nvis m. item v [i] * item ?vb [i])"
    using sum_list_map2_nth [OF lv lvb, of "(*)"] shv shvb by (simp add: item_1)
  have s2: "sum_list (map2 (*) (data h) (data ?hb)) = (\<Sum>j<nhid m. item h [j] * item ?hb [j])"
    using sum_list_map2_nth [OF lh lhb, of "(*)"] shh shhb by (simp add: item_1)
  have "map2 (*) (data ?W) (data (np_outer h v))
      = map2 (*) (concat (map (\<lambda>j. map (\<lambda>i. data ?W ! (j * nvis m + i)) [0..<nvis m]) [0..<nhid m]))
                 (concat (map (\<lambda>j. map (\<lambda>i. data h ! j * data v ! i) [0..<nvis m]) [0..<nhid m]))"
    using data_by_rows [OF lW] outer_by_rows [of "data v" "data h"] lv lh
    by (simp add: np_outer_def)
  then have "sum_list (map2 (*) (data ?W) (data (np_outer h v)))
      = (\<Sum>j<nhid m. \<Sum>i<nvis m. data ?W ! (j * nvis m + i) * (data h ! j * data v ! i))"
    by (simp only: map2_rows sum_list_rows)
  then have s3: "sum_list (map2 (*) (data ?W) (data (np_outer h v)))
      = (\<Sum>j<nhid m. \<Sum>i<nvis m. item ?W [j, i] * item h [j] * item v [i])"
    using shW shh shv by (simp add: item_2 item_1 mult.assoc)
  show ?thesis
    by (simp add: energy_body_def t1 t2 t3 np_sum_def s1 s2 s3 Let_def)
qed

lemma energy_body_example:
  "model_shaped (rbm_of 2 1, check_heap) \<and> vector_of (nvis (rbm_of 2 1)) (array1 [1, 1])
   \<and> vector_of (nhid (rbm_of 2 1)) (array1 [1])
   \<and> energy_body (rbm_of 2 1, check_heap) (array1 [1, 1]) (array1 [1])
       = (Inr 0, (rbm_of 2 1, check_heap))"
proof -
  have v: "vector_of (nvis (rbm_of 2 1)) (array1 [1, 1])"
    by (simp add: vector_of_def array1_def well_shaped_def rbm_of_def)
  have h: "vector_of (nhid (rbm_of 2 1)) (array1 [1])"
    by (simp add: vector_of_def array1_def well_shaped_def rbm_of_def)
  have "energy_body (rbm_of 2 1, check_heap) (array1 [1, 1]) (array1 [1])
       = (Inr 0, (rbm_of 2 1, check_heap))"
    using energy_body_formula [OF check_shaped v h]
    by (simp add: rbm_of_def check_heap_def heap_of_def array1_def array2_def item_def
        lessThan_Suc numeral_2_eq_2)
  then show ?thesis using check_shaped v h by simp
qed

text \<open>
  The body of \<open>__init__\<close>: with a \<open>vtype\<close> or \<open>htype\<close> that is not a key of the
  activation registry it raises KeyError for the offending name (\<open>htype\<close> is looked up
  first) and builds no model.
\<close>

lemma init_body_unknown_type:
  assumes "\<not> (vt \<in> set (map fst unittypes) \<and> ht \<in> set (map fst unittypes))"
  shows "fst (Rbm_init_body u nv nh vt ht s) =
     Inl (KeyError (if ht \<in> set (map fst unittypes) then vt else ht))"
proof -
  have k: "\<And>k. getitem unittypes k =
      (if k \<in> set (map fst unittypes) then getitem unittypes k else Inl (KeyError k))"
    by (auto simp: getitem_def map_of_eq_None_iff [symmetric] split: option.splits)
  have isr: "\<And>k. k \<in> set (map fst unittypes) \<Longrightarrow> \<exists>g. getitem unittypes k = Inr g"
    by (auto simp: getitem_def unittypes_def)
  show ?thesis
  proof (cases "ht \<in> set (map fst unittypes)")
    case True
    then obtain g where g: "getitem unittypes ht = Inr g" using isr by blast
    from True assms have "vt \<notin> set (map fst unittypes)" by blast
    then have "getitem unittypes vt = Inl (KeyError vt)" using k [of vt] by simp
    then show ?thesis using True g
      by (simp add: Rbm_init_body_def alloc_def bind_err_def Let_def split_def)
  next
    case False
    then have "getitem unittypes ht = Inl (KeyError ht)" using k [of ht] by simp
    then show ?thesis using False
      by (simp add: Rbm_init_body_def alloc_def bind_err_def Let_def split_def)
  qed
qed

lemma init_body_example:
  "\<not> (''not_a_real_type'' \<in> set (map fst unittypes) \<and> ''sigmoid'' \<in> set (map fst unittypes))
   \<and> fst (Rbm_init_body (\<lambda>k. 0) 2 1 ''not_a_real_type'' ''sigmoid'' empty_heap)
       = Inl (KeyError ''not_a_real_type'')"
proof -
  have h: "\<not> (''not_a_real_type'' \<in> set (map fst unittypes) \<and> ''sigmoid'' \<in> set (map fst unittypes))"
    by (simp add: unittypes_def)
  have "''sigmoid'' \<in> set (map fst unittypes)" by (simp add: unittypes_def)
  then show ?thesis
    using h init_body_unknown_type [OF h, of "\<lambda>k. 0" 2 1 empty_heap] by simp
qed

text \<open>
  The body of \<open>free_energy\<close>: on the same inputs as \<open>ff\<close> it computes
  \<open>- \<Sum>\<^sub>i v\<^sub>i vb\<^sub>i - \<Sum>\<^sub>j log(1 + exp((W\<cdot>v + hb)\<^sub>j))\<close>, each term as the source writes it.
\<close>

lemma free_energy_body_formula:
  assumes "model_shaped (m, s)" "vector_of (nvis m) v"
  shows "free_energy_body (m, s) v =
     (Inr (- (\<Sum>i<nvis m. item v [i] * item (cells s (vb m)) [i])
           - (\<Sum>j<nhid m. ln (1 + exp ((\<Sum>i\<leftarrow>[0..<nvis m].
                 item (cells s (W m)) [j, i] * item v [i]) + item (cells s (hb m)) [j])))),
      (m, s))"
proof -
  let ?W = "cells s (W m)" and ?hb = "cells s (hb m)" and ?vb = "cells s (vb m)"
  let ?x = "\<lambda>j. (\<Sum>t\<leftarrow>[0..<nvis m]. item ?W [j, t] * item v [t]) + item ?hb [j]"
  let ?a = "\<lparr>shape = [nhid m],
      data = map (\<lambda>j. \<Sum>t\<leftarrow>[0..<nvis m]. item ?W [j, t] * item v [t]) [0..<nhid m]\<rparr>"
  have shW: "shape ?W = [nhid m, nvis m]"
    and shvb: "shape ?vb = [nvis m]" and wvb: "well_shaped ?vb"
    and shb: "shape ?hb = [nhid m]" and wb: "well_shaped ?hb"
    using assms(1) by (simp_all add: model_shaped_def)
  have shv: "shape v = [nvis m]" and wv: "well_shaped v"
    using assms(2) by (simp_all add: vector_of_def)
  have lv: "length (data v) = nvis m" and lvb: "length (data ?vb) = nvis m"
    and lb: "length (data ?hb) = nhid m"
    using wv shv wvb shvb wb shb by (simp_all add: well_shaped_def)
  have mul: "binop (*) v ?vb = Inr \<lparr>shape = [nvis m], data = map2 (*) (data v) (data ?vb)\<rparr>"
    using binop_same_shape [OF wv wvb, of "(*)"] shv shvb by simp
  have s1: "sum_list (map2 (*) (data v) (data ?vb)) = (\<Sum>i<nvis m. item v [i] * item ?vb [i])"
    using sum_list_map2_nth [OF lv lvb, of "(*)"] shv shvb by (simp add: item_1)
  have dot: "np_dot ?W v = Inr ?a" by (rule np_dot_matrix_vector [OF shW shv])
  have wa: "well_shaped ?a" by (simp add: well_shaped_def)
  have add: "binop (+) ?a ?hb = Inr \<lparr>shape = [nhid m], data = map ?x [0..<nhid m]\<rparr>"
    using binop_same_shape [OF wa wb, of "(+)"] shb lb by (simp add: map2_map_upt item_1)
  have s2: "np_sum (np_log (scalar_add 1 (np_exp \<lparr>shape = [nhid m], data = map ?x [0..<nhid m]\<rparr>)))
      = (\<Sum>j<nhid m. ln (1 + exp (?x j)))"
    by (simp add: np_sum_def np_log_def scalar_add_def np_exp_def amap_def comp_def sum_list_upt)
  show ?thesis
    by (simp add: free_energy_body_def mul dot add bind_err_def np_sum_def s1
        s2 [unfolded np_sum_def] Let_def)
qed

subsection \<open>Snapshot and restore\<close>

lemma getitem_registered:
  "k \<in> set (map fst unittypes) \<Longrightarrow> \<exists>g. getitem unittypes k = Inr g"
  by (auto simp: getitem_def unittypes_def)

lemma getstate_result:
  assumes "refs_allocated (m, s)"
  shows "getstate_body (m, s) = (d, st1) \<Longrightarrow>
     fst st1 = m \<and>
     d_nvis d = nvis m \<and> d_nhid d = nhid m \<and> d_vtype d = vtype m \<and> d_htype d = htype m \<and>
     d_W d = nxt s \<and> d_vb d = nxt s + 1 \<and> d_hb d = nxt s + 2 \<and>
     d_dW d = nxt s + 3 \<and> d_dhb d = nxt s + 4 \<and> d_dvb d = nxt s + 5 \<and>
     cells (snd st1) (d_W d) = cells s (W m) \<and>
     cells (snd st1) (d_vb d) = cells s (vb m) \<and>
     cells (snd st1) (d_hb d) = cells s (hb m) \<and>
     cells (snd st1) (d_dW d) = cells s (dW m) \<and>
     cells (snd st1) (d_dhb d) = cells s (dhb m) \<and>
     cells (snd st1) (d_dvb d) = cells s (dvb m) \<and>
     (\<forall>r. r < nxt s \<longrightarrow> cells (snd st1) r = cells s r)"
  using assms
  by (auto simp: getstate_body_def alloc_def Let_def refs_allocated_def)

lemma copy_allocated: "refs_allocated (rbm_of 2 1, copy_heap)"
  by (simp add: refs_allocated_def rbm_of_def copy_heap_def heap_of_def)

lemma copy_energy:
  "fst (energy_body (rbm_of 2 1, copy_heap) (array1 [1, 1]) (array1 [1])) = Inr (- 3)"
  by (simp add: energy_body_def rbm_of_def copy_heap_def heap_of_def array1_def array2_def
      binop_def broadcast_shapes_def broadcast_to_def src_index_def item_def bind_err_def
      np_outer_def np_sum_def upt_2 Let_def)

text \<open>
  The bodies of \<open>__getstate__\<close> and \<open>__setstate__\<close>: for a model whose arrays are
  allocated and whose activation names are registered, whatever \<open>W\<close>, \<open>vb\<close>, \<open>hb\<close> hold,
  restoring from the snapshot gives a model on which the bodies of \<open>ff\<close>, \<open>fb\<close> and
  \<open>energy\<close> compute what they compute on the original; and overwriting the original
  model's \<open>W\<close> afterwards changes neither the snapshot's arrays nor those results.
\<close>

lemma snapshot_body_roundtrip:
  assumes "refs_allocated (m, s)"
    and "vtype m \<in> set (map fst unittypes)" and "htype m \<in> set (map fst unittypes)"
  shows "case getstate_body (m, s) of (d, st1) \<Rightarrow>
     fst st1 = m \<and>
     (case setstate_body (m0, snd st1) d of (r, st2) \<Rightarrow>
        r = Inr () \<and> snd st2 = snd st1 \<and>
        fst (ff_body st2 v) = fst (ff_body (m, s) v) \<and>
        fst (fb_body st2 h) = fst (fb_body (m, s) h) \<and>
        fst (energy_body st2 v h) = fst (energy_body (m, s) v h) \<and>
        (\<forall>a. let s3 = store (W m) a (snd st2) in
           cells s3 (d_W d) = cells s (W m) \<and>
           cells s3 (d_vb d) = cells s (vb m) \<and>
           cells s3 (d_hb d) = cells s (hb m) \<and>
           fst (ff_body (fst st2, s3) v) = fst (ff_body (m, s) v) \<and>
           fst (fb_body (fst st2, s3) h) = fst (fb_body (m, s) h) \<and>
           fst (energy_body (fst st2, s3) v h) = fst (energy_body (m, s) v h)))"
proof -
  obtain d st1 where g: "getstate_body (m, s) = (d, st1)" by (cases "getstate_body (m, s)")
  note G = getstate_result [OF assms(1) g]
  obtain fv where fv: "getitem unittypes (d_vtype d) = Inr fv"
    using getitem_registered [OF assms(2)] G by auto
  obtain fh where fh: "getitem unittypes (d_htype d) = Inr fh"
    using getitem_registered [OF assms(3)] G by auto
  let ?m2 = "m0\<lparr>nvis := d_nvis d, nhid := d_nhid d, vtype := d_vtype d, htype := d_htype d,
      W := d_W d, vb := d_vb d, hb := d_hb d, dW := d_dW d, dvb := d_dvb d, dhb := d_dhb d,
      vact := fv, hact := fh\<rparr>"
  have s: "setstate_body (m0, snd st1) d = (Inr (), (?m2, snd st1))"
    by (simp add: setstate_body_def Let_def fv fh)
  have c1: "cells (snd st1) (W ?m2) = cells s (W m)"
    and c2: "cells (snd st1) (vb ?m2) = cells s (vb m)"
    and c3: "cells (snd st1) (hb ?m2) = cells s (hb m)"
    using G by auto
  have lt: "W m < nxt s" using assms(1) by (simp add: refs_allocated_def)
  have e1: "cells (store (W m) a (snd st1)) (W ?m2) = cells s (W m)"
    and e2: "cells (store (W m) a (snd st1)) (vb ?m2) = cells s (vb m)"
    and e3: "cells (store (W m) a (snd st1)) (hb ?m2) = cells s (hb m)" for a
    using G lt by (auto simp: store_def)
  have before: "fst (ff_body (?m2, snd st1) v) = fst (ff_body (m, s) v)"
    "fst (fb_body (?m2, snd st1) h) = fst (fb_body (m, s) h)"
    "fst (energy_body (?m2, snd st1) v h) = fst (energy_body (m, s) v h)"
    unfolding ff_body_def fb_body_def energy_body_def using c1 c2 c3 by simp_all
  have after: "fst (ff_body (?m2, store (W m) a (snd st1)) v) = fst (ff_body (m, s) v)"
    "fst (fb_body (?m2, store (W m) a (snd st1)) h) = fst (fb_body (m, s) h)"
    "fst (energy_body (?m2, store (W m) a (snd st1)) v h) = fst (energy_body (m, s) v h)" for a
    unfolding ff_body_def fb_body_def energy_body_def using e1 [of a] e2 [of a] e3 [of a] by simp_all
  have ee: "cells (store (W m) a (snd st1)) (d_W d) = cells s (W m)"
    "cells (store (W m) a (snd st1)) (d_vb d) = cells s (vb m)"
    "cells (store (W m) a (snd st1)) (d_hb d) = cells s (hb m)" for a
    using e1 [of a] e2 [of a] e3 [of a] by simp_all
  show ?thesis
    using G before after ee by (simp add: g s Let_def)
qed

lemma snapshot_body_example:
  "refs_allocated (rbm_of 2 1, copy_heap)
   \<and> vtype (rbm_of 2 1) \<in> set (map fst unittypes)
   \<and> htype (rbm_of 2 1) \<in> set (map fst unittypes)
   \<and> (case getstate_body (rbm_of 2 1, copy_heap) of (d, st1) \<Rightarrow>
        case setstate_body (rbm_of 0 0, snd st1) d of (r, st2) \<Rightarrow>
          r = Inr () \<and>
          fst (energy_body st2 (array1 [1, 1]) (array1 [1])) = Inr (- 3) \<and>
          fst (energy_body (fst st2, store (W (rbm_of 2 1)) (zeros [1, 2]) (snd st2))
                 (array1 [1, 1]) (array1 [1])) = Inr (- 3))"
proof -
  have t1: "vtype (rbm_of 2 1) \<in> set (map fst unittypes)"
    and t2: "htype (rbm_of 2 1) \<in> set (map fst unittypes)"
    by (simp_all add: rbm_of_def unittypes_def)
  have e: "fst (energy_body (rbm_of 2 1, copy_heap) (array1 [1, 1]) (array1 [1])) = Inr (- 3)"
    by (rule copy_energy)
  obtain d st1 where g: "getstate_body (rbm_of 2 1, copy_heap) = (d, st1)"
    by (cases "getstate_body (rbm_of 2 1, copy_heap)")
  obtain r st2 where s: "setstate_body (rbm_of 0 0, snd st1) d = (r, st2)"
    by (cases "setstate_body (rbm_of 0 0, snd st1) d")
  have "r = Inr () \<and>
          fst (energy_body st2 (array1 [1, 1]) (array1 [1])) = Inr (- 3) \<and>
          fst (energy_body (fst st2, store (W (rbm_of 2 1)) (zeros [1, 2]) (snd st2))
                 (array1 [1, 1]) (array1 [1])) = Inr (- 3)"
    using snapshot_body_roundtrip [OF copy_allocated t1 t2,
        where ?m0.0 = "rbm_of 0 0" and v = "array1 [1, 1]" and h = "array1 [1]"]
    by (auto simp: g s e Let_def simp del: One_nat_def)
  then show ?thesis using copy_allocated t1 t2 by (simp add: g s del: One_nat_def)
qed

section \<open>rbm.py: the class as a program reaches it\<close>

lemma rbm_imports_fail: "rbm_imports = Inl (ImportError ''rthresh'')"
  by (simp add: rbm_imports_def units_globals_def bind_err_def)

lemma through_module_fails: "through_module st run = (Inl (ImportError ''rthresh''), st)"
  by (simp add: through_module_def rbm_imports_fail)

text \<open>
  Claim C1: \<open>hid_sample\<close> and \<open>vis_sample\<close> return \<open>pthresh\<close> of their input.  The code
  does not: both call \<open>rthresh\<close>, a name units.py does not define, so the import line of
  rbm.py raises ImportError and neither method returns an array, whatever the input.
\<close>

theorem import_rthresh_fails:
  "rbm_imports = Inl (ImportError ''rthresh'')
   \<and> fst (hid_sample st u h) = Inl (ImportError ''rthresh'')
   \<and> fst (vis_sample st u v) = Inl (ImportError ''rthresh'')"
  by (simp add: rbm_imports_def units_globals_def bind_err_def hid_sample_def vis_sample_def
      call_imported_def)

text \<open>
  Claim C2: \<open>ff(v)\<close> returns \<open>sigmoid(W\<cdot>v + hb)\<close>, whatever \<open>htype\<close> is, with no side
  effect.  The code does not: rbm.py cannot be imported (its import line names
  \<open>rthresh\<close>), so for every model and every \<open>v\<close> a call of \<open>ff\<close> ends in ImportError and
  returns no vector; the state is left as it was.  The body alone would compute the
  claimed value (\<open>ff_body_sigmoid\<close>).
\<close>

theorem ff_import_error:
  "ff st v = (Inl (ImportError ''rthresh''), st)"
  unfolding ff_def by (rule through_module_fails)

text \<open>
  Claim C3: \<open>energy(v, h)\<close> is \<open>- \<Sum>\<^sub>i v\<^sub>i vb\<^sub>i - \<Sum>\<^sub>j h\<^sub>j hb\<^sub>j - \<Sum>\<^sub>j \<Sum>\<^sub>i W\<^sub>j\<^sub>i h\<^sub>j v\<^sub>i\<close>, which is 0 on
  the specification's check.  The code does not return it: for every model and every
  \<open>v\<close>, \<open>h\<close>, the specification's check included, a call of \<open>energy\<close> ends in the
  ImportError of the import line.  The body alone would compute the claimed value
  (\<open>energy_body_formula\<close>).
\<close>

theorem energy_import_error:
  "energy st v h = (Inl (ImportError ''rthresh''), st)
   \<and> fst (energy (rbm_of 2 1, check_heap) (array1 [1, 1]) (array1 [1])) \<noteq> Inr 0"
proof -
  have "energy st v h = (Inl (ImportError ''rthresh''), st)" for st v h
    unfolding energy_def by (rule through_module_fails)
  then show ?thesis by simp
qed

text \<open>
  Claim C4: \<open>free_energy(v)\<close> returns a finite value for large-magnitude entries.  The
  code returns no value at all: for every model and every \<open>v\<close> a call of \<open>free_energy\<close>
  ends in the ImportError of the import line.
\<close>

theorem free_energy_import_error:
  "free_energy st v = (Inl (ImportError ''rthresh''), st)"
  unfolding free_energy_def by (rule through_module_fails)

text \<open>
  Claim C9: constructing an Rbm with a \<open>vtype\<close> or \<open>htype\<close> that is not a registry key
  fails with the registry's lookup error.  The code fails earlier and differently: for
  every pair of names, registered or not, the program gets the ImportError of the import
  line, never the KeyError of the lookup, and no model.  The body of \<open>__init__\<close> alone
  would raise the KeyError (\<open>init_body_unknown_type\<close>).
\<close>

theorem init_import_error:
  "Rbm_init u nv nh vt ht s = (Inl (ImportError ''rthresh''), s)
   \<and> fst (Rbm_init u nv nh ''not_a_real_type'' ht s) \<noteq> Inl (KeyError ''not_a_real_type'')"
proof -
  have "Rbm_init u nv nh vt ht s = (Inl (ImportError ''rthresh''), s)" for vt ht
    unfolding Rbm_init_def by (rule through_module_fails)
  then show ?thesis by simp
qed

text \<open>
  Claim C8: restoring from a snapshot gives a model with the same \<open>forward\<close>,
  \<open>backward\<close> and \<open>energy\<close> outputs, and the snapshot is an independent copy.  The code
  produces neither a snapshot nor a restored model: for every model and every dict,
  \<open>__getstate__\<close> and \<open>__setstate__\<close> end in the ImportError of the import line, and the
  state is left as it was.  The bodies alone would do what the claim says
  (\<open>snapshot_body_roundtrip\<close>).
\<close>

theorem snapshot_import_error:
  "getstate st = (Inl (ImportError ''rthresh''), st)
   \<and> setstate st d = (Inl (ImportError ''rthresh''), st)"
proof -
  have "getstate st = (Inl (ImportError ''rthresh''), st)"
    unfolding getstate_def by (rule through_module_fails)
  moreover have "setstate st d = (Inl (ImportError ''rthresh''), st)"
    unfolding setstate_def by (rule through_module_fails)
  ultimately show ?thesis by simp
qed

end
